theory Spec2Isabelle
  imports Complex_Main "HOL-Library.Multiset" "HOL-Library.List_Lexorder" "HOL-Library.Char_ord"
begin

section \<open>Hashtag collocation analysis: the embedding\<close>

text \<open>
  The script \<^verbatim>\<open>3_hashtags_cal_collo/import json.py\<close> has five functions:
  \<^verbatim>\<open>load_and_extract_hashtags\<close>, \<^verbatim>\<open>calculate_cooccurrence_matrix\<close>,
  \<^verbatim>\<open>calculate_pmi\<close>, \<^verbatim>\<open>get_top_collocations\<close> and
  \<^verbatim>\<open>analyze_hashtag_collocations\<close>. Each is embedded below under its own name.

  Three library functions decide part of what the script computes and are not part of
  the repository; each is a parameter of the function that calls it:
  \<^item> \<open>lower\<close>: Python's \<^verbatim>\<open>str.lower\<close> (Unicode case mapping);
  \<^item> \<open>set_iter\<close>: the order in which \<^verbatim>\<open>list(set(xs))\<close> hands out the distinct
    elements of \<open>xs\<close> (it follows the string hashes, which change from run to run);
  \<^item> \<open>sort_values\<close>: pandas' \<^verbatim>\<open>sort_values('pmi', ascending=False)\<close> with its
    default \<^verbatim>\<open>kind='quicksort'\<close>, which returns the rows in descending order of the
    score, rows without a score (NaN) last, and promises nothing about ties.
\<close>

subsection \<open>Records and tag lists\<close>

text \<open>
  A post is a JSON object; the only key read is \<^verbatim>\<open>hashtags\<close>, which may be missing.
\<close>

record post =
  hashtags :: "string list option"

text \<open>
  \<^verbatim>\<open>
  all_post_hashtags = []
  for post in data:
      if 'hashtags' in post:
          hashtags = [tag.lower() for tag in post['hashtags']]
          if hashtags:
              all_post_hashtags.append(hashtags)
  return all_post_hashtags
  \<close>
\<close>

fun load_and_extract_hashtags :: "(string \<Rightarrow> string) \<Rightarrow> 'r post_scheme list \<Rightarrow> string list list" where
  "load_and_extract_hashtags lower [] = []"
| "load_and_extract_hashtags lower (p # data) =
     (case hashtags p of
        None \<Rightarrow> load_and_extract_hashtags lower data
      | Some tags \<Rightarrow>
          (let hs = map lower tags
           in if hs \<noteq> [] then hs # load_and_extract_hashtags lower data
              else load_and_extract_hashtags lower data))"

text \<open>
  An instance of \<open>lower\<close> for ASCII strings, used to run the model: a capital letter
  and its small letter differ in bit 5 of the code.
\<close>

definition ascii_lower_char :: "char \<Rightarrow> char" where
  "ascii_lower_char c =
     (if CHR ''A'' \<le> c \<and> c \<le> CHR ''Z''
      then (case c of Char b0 b1 b2 b3 b4 b5 b6 b7 \<Rightarrow> Char b0 b1 b2 b3 b4 True b6 b7)
      else c)"

definition ascii_lower :: "string \<Rightarrow> string" where
  "ascii_lower s = map ascii_lower_char s"

subsection \<open>Labelled square matrices\<close>

text \<open>
  Both data frames of the script are built with the same list as index and as columns, so
  the model keeps one list of labels and the cells as a function of row and column label.
  A cell outside the labels is never read or written by the script.
\<close>

record ('a, 'v) dataframe =
  labels :: "'a list"
  loc :: "'a \<Rightarrow> 'a \<Rightarrow> 'v"

subsection \<open>The co-occurrence matrix\<close>

text \<open>\<^verbatim>\<open>itertools.combinations(xs, 2)\<close>: the pairs of positions \<open>i < j\<close>, in order.\<close>

fun combinations2 :: "'a list \<Rightarrow> ('a \<times> 'a) list" where
  "combinations2 [] = []"
| "combinations2 (x # xs) = map (Pair x) xs @ combinations2 xs"

text \<open>\<^verbatim>\<open>m.loc[r, c] += 1\<close>\<close>

definition loc_incr :: "'a \<Rightarrow> 'a \<Rightarrow> ('a \<Rightarrow> 'a \<Rightarrow> nat) \<Rightarrow> ('a \<Rightarrow> 'a \<Rightarrow> nat)" where
  "loc_incr r c m = m(r := (m r)(c := m r c + 1))"

text \<open>The body of the inner loop: both cells of the pair are incremented, in this order.\<close>

definition count_pair :: "'a \<times> 'a \<Rightarrow> ('a \<Rightarrow> 'a \<Rightarrow> nat) \<Rightarrow> ('a \<Rightarrow> 'a \<Rightarrow> nat)" where
  "count_pair p m = (case p of (tag1, tag2) \<Rightarrow> loc_incr tag2 tag1 (loc_incr tag1 tag2 m))"

definition count_post :: "'a list \<Rightarrow> ('a \<Rightarrow> 'a \<Rightarrow> nat) \<Rightarrow> ('a \<Rightarrow> 'a \<Rightarrow> nat)" where
  "count_post tags m = fold count_pair (combinations2 tags) m"

text \<open>Every pair the two loops visit, in the order they visit it.\<close>

definition all_pairs :: "'a list list \<Rightarrow> ('a \<times> 'a) list" where
  "all_pairs hashtag_lists = concat (map combinations2 hashtag_lists)"

text \<open>
  \<^verbatim>\<open>
  unique_hashtags = sorted(list(set([tag for sublist in hashtag_lists for tag in sublist])))
  cooccurrence_matrix = pd.DataFrame(0, index=unique_hashtags, columns=unique_hashtags)
  for hashtags in hashtag_lists:
      for tag1, tag2 in combinations(hashtags, 2):
          cooccurrence_matrix.loc[tag1, tag2] += 1
          cooccurrence_matrix.loc[tag2, tag1] += 1
  return cooccurrence_matrix, unique_hashtags
  \<close>
\<close>

definition calculate_cooccurrence_matrix ::
  "('a list \<Rightarrow> 'a list) \<Rightarrow> ('a::linorder) list list \<Rightarrow> ('a, nat) dataframe \<times> 'a list" where
  "calculate_cooccurrence_matrix set_iter hashtag_lists =
     (let unique_hashtags = sort (set_iter (concat hashtag_lists));
          cooccurrence_matrix = \<lparr>labels = unique_hashtags, loc = (\<lambda>_ _. 0)\<rparr>
      in (cooccurrence_matrix\<lparr>loc := fold count_post hashtag_lists (loc cooccurrence_matrix)\<rparr>,
          unique_hashtags))"

text \<open>What \<^verbatim>\<open>list(set(xs))\<close> guarantees, and an instance.\<close>

definition set_iter_ok :: "('a list \<Rightarrow> 'a list) \<Rightarrow> bool" where
  "set_iter_ok set_iter = (\<forall>xs. distinct (set_iter xs) \<and> set (set_iter xs) = set xs)"

subsection \<open>numpy's float64, idealised\<close>

text \<open>
  The finite values are modelled by the reals (no rounding, no overflow); the results
  of a division by zero and of the logarithm at zero are the IEEE ones, as numpy returns
  them (with a warning, without raising). Zero is unsigned: every zero divisor of the
  script is a sum or a product of non-negative numbers.
\<close>

datatype npfloat = Num real | PInf | NInf | NaN

fun np_div :: "npfloat \<Rightarrow> npfloat \<Rightarrow> npfloat" where
  "np_div (Num x) (Num y) =
     (if y \<noteq> 0 then Num (x / y) else if 0 < x then PInf else if x < 0 then NInf else NaN)"
| "np_div (Num x) PInf = Num 0"
| "np_div (Num x) NInf = Num 0"
| "np_div PInf (Num y) = (if 0 \<le> y then PInf else NInf)"
| "np_div NInf (Num y) = (if 0 \<le> y then NInf else PInf)"
| "np_div _ _ = NaN"

fun np_mul :: "npfloat \<Rightarrow> npfloat \<Rightarrow> npfloat" where
  "np_mul (Num x) (Num y) = Num (x * y)"
| "np_mul (Num x) PInf = (if 0 < x then PInf else if x < 0 then NInf else NaN)"
| "np_mul (Num x) NInf = (if 0 < x then NInf else if x < 0 then PInf else NaN)"
| "np_mul PInf (Num y) = (if 0 < y then PInf else if y < 0 then NInf else NaN)"
| "np_mul NInf (Num y) = (if 0 < y then NInf else if y < 0 then PInf else NaN)"
| "np_mul PInf PInf = PInf"
| "np_mul NInf NInf = PInf"
| "np_mul PInf NInf = NInf"
| "np_mul NInf PInf = NInf"
| "np_mul _ _ = NaN"

fun np_log2 :: "npfloat \<Rightarrow> npfloat" where
  "np_log2 (Num x) = (if 0 < x then Num (log 2 x) else if x = 0 then NInf else NaN)"
| "np_log2 PInf = PInf"
| "np_log2 _ = NaN"

text \<open>\<^verbatim>\<open>x > 0\<close>: false for NaN.\<close>

fun np_gt0 :: "npfloat \<Rightarrow> bool" where
  "np_gt0 (Num x) = (0 < x)"
| "np_gt0 PInf = True"
| "np_gt0 _ = False"

text \<open>
  The order of a descending sort with \<^verbatim>\<open>na_position='last'\<close>: \<open>np_ge a b\<close> says that
  a row with score \<open>a\<close> may stand before a row with score \<open>b\<close>.
\<close>

fun np_ge :: "npfloat \<Rightarrow> npfloat \<Rightarrow> bool" where
  "np_ge _ NaN = True"
| "np_ge NaN _ = False"
| "np_ge PInf _ = True"
| "np_ge _ NInf = True"
| "np_ge (Num x) (Num y) = (y \<le> x)"
| "np_ge _ _ = False"

subsection \<open>The PMI matrix\<close>

text \<open>\<^verbatim>\<open>df.sum()\<close> is the series of the column sums, \<^verbatim>\<open>df.sum().sum()\<close> their sum.\<close>

definition col_sum :: "('a, nat) dataframe \<Rightarrow> 'a \<Rightarrow> nat" where
  "col_sum df c = sum_list (map (\<lambda>r. loc df r c) (labels df))"

definition sum_sum :: "('a, nat) dataframe \<Rightarrow> nat" where
  "sum_sum df = sum_list (map (col_sum df) (labels df))"

definition total_cooccurrences :: "('a, nat) dataframe \<Rightarrow> npfloat" where
  "total_cooccurrences df = np_div (Num (real (sum_sum df))) (Num 2)"

definition marginal_probs :: "('a, nat) dataframe \<Rightarrow> 'a \<Rightarrow> npfloat" where
  "marginal_probs df t = np_div (Num (real (col_sum df t))) (total_cooccurrences df)"

definition joint_prob :: "('a, nat) dataframe \<Rightarrow> 'a \<Rightarrow> 'a \<Rightarrow> npfloat" where
  "joint_prob df tag1 tag2 = np_div (Num (real (loc df tag1 tag2))) (total_cooccurrences df)"

text \<open>The body of the inner loop of \<^verbatim>\<open>calculate_pmi\<close>.\<close>

definition pmi_step ::
  "('a, nat) dataframe \<Rightarrow> 'a \<Rightarrow> 'a \<Rightarrow> ('a \<Rightarrow> 'a \<Rightarrow> npfloat) \<Rightarrow> ('a \<Rightarrow> 'a \<Rightarrow> npfloat)" where
  "pmi_step df tag1 tag2 pmi_matrix =
     (if tag1 \<noteq> tag2 then
        (if np_gt0 (joint_prob df tag1 tag2) then
           (let pmi = np_log2 (np_div (joint_prob df tag1 tag2)
                                (np_mul (marginal_probs df tag1) (marginal_probs df tag2)))
            in pmi_matrix(tag1 := (pmi_matrix tag1)(tag2 := pmi)))
         else pmi_matrix)
      else pmi_matrix)"

text \<open>
  \<^verbatim>\<open>
  total_cooccurrences = cooccurrence_matrix.sum().sum() / 2
  marginal_probs = cooccurrence_matrix.sum() / total_cooccurrences
  pmi_matrix = pd.DataFrame(0, index=cooccurrence_matrix.index, columns=cooccurrence_matrix.columns)
  for tag1 in cooccurrence_matrix.index:
      for tag2 in cooccurrence_matrix.columns:
          if tag1 != tag2:
              joint_prob = cooccurrence_matrix.loc[tag1, tag2] / total_cooccurrences
              if joint_prob > 0:
                  pmi = np.log2(joint_prob / (marginal_probs[tag1] * marginal_probs[tag2]))
                  pmi_matrix.loc[tag1, tag2] = pmi
  return pmi_matrix
  \<close>
\<close>

definition calculate_pmi :: "('a, nat) dataframe \<Rightarrow> ('a, npfloat) dataframe" where
  "calculate_pmi df =
     \<lparr>labels = labels df,
      loc = fold (\<lambda>tag1. fold (pmi_step df tag1) (labels df)) (labels df) (\<lambda>_ _. Num 0)\<rparr>"

text \<open>
  For the proofs: the score the loop body writes, and the pairs for which it writes.
\<close>

definition pmi_formula :: "('a, nat) dataframe \<Rightarrow> 'a \<Rightarrow> 'a \<Rightarrow> npfloat" where
  "pmi_formula df tag1 tag2 =
     np_log2 (np_div (joint_prob df tag1 tag2)
                (np_mul (marginal_probs df tag1) (marginal_probs df tag2)))"

definition pmi_written :: "('a, nat) dataframe \<Rightarrow> 'a \<times> 'a \<Rightarrow> bool" where
  "pmi_written df p = (fst p \<noteq> snd p \<and> np_gt0 (joint_prob df (fst p) (snd p)))"

text \<open>
  The marginal as the specification words it, for comparison with \<open>marginal_probs\<close>:
  the sum of the row of the tag over all other tags, over half the sum of the entries.
  The script sums the whole column, the diagonal cell included.
\<close>

definition spec_marginal :: "('a, nat) dataframe \<Rightarrow> 'a \<Rightarrow> real" where
  "spec_marginal df t =
     real (sum_list (map (loc df t) (filter (\<lambda>other. other \<noteq> t) (labels df)))) /
     (real (sum_sum df) / 2)"

subsection \<open>The ranking\<close>

type_synonym 'a collocation = "'a \<times> 'a \<times> npfloat"

definition pmi_of :: "'a collocation \<Rightarrow> npfloat" where
  "pmi_of row = snd (snd row)"

text \<open>The two loops that fill \<^verbatim>\<open>pmi_values\<close> with the upper triangle.\<close>

definition pmi_values :: "('a::linorder, npfloat) dataframe \<Rightarrow> 'a collocation list" where
  "pmi_values pmi_matrix =
     concat (map (\<lambda>tag1. map (\<lambda>tag2. (tag1, tag2, loc pmi_matrix tag1 tag2))
                           (filter (\<lambda>tag2. tag1 < tag2) (labels pmi_matrix)))
                 (labels pmi_matrix))"

text \<open>\<^verbatim>\<open>df.head(n)\<close> is \<^verbatim>\<open>df.iloc[:n]\<close>: a negative \<open>n\<close> drops the last \<open>-n\<close> rows.\<close>

definition df_head :: "int \<Rightarrow> 'b list \<Rightarrow> 'b list" where
  "df_head n rows = (if 0 \<le> n then take (nat n) rows else take (length rows - nat (- n)) rows)"

text \<open>What \<^verbatim>\<open>sort_values('pmi', ascending=False)\<close> guarantees.\<close>

definition sort_values_ok :: "('a collocation list \<Rightarrow> 'a collocation list) \<Rightarrow> bool" where
  "sort_values_ok sort_values =
     (\<forall>rows. mset (sort_values rows) = mset rows \<and>
             sorted_wrt (\<lambda>r s. np_ge (pmi_of r) (pmi_of s)) (sort_values rows))"

definition get_top_collocations ::
  "('a collocation list \<Rightarrow> 'a collocation list) \<Rightarrow> ('a::linorder, npfloat) dataframe \<Rightarrow> int
     \<Rightarrow> 'a collocation list" where
  "get_top_collocations sort_values pmi_matrix n = df_head n (sort_values (pmi_values pmi_matrix))"

text \<open>The call \<^verbatim>\<open>get_top_collocations(pmi_matrix)\<close> takes the default \<^verbatim>\<open>n=10\<close>.\<close>

definition get_top_collocations_default ::
  "('a collocation list \<Rightarrow> 'a collocation list) \<Rightarrow> ('a::linorder, npfloat) dataframe
     \<Rightarrow> 'a collocation list" where
  "get_top_collocations_default sort_values pmi_matrix = get_top_collocations sort_values pmi_matrix 10"

text \<open>An instance of \<open>sort_values\<close>: insertion sort, which keeps ties in their order.\<close>

fun insert_desc :: "'a collocation \<Rightarrow> 'a collocation list \<Rightarrow> 'a collocation list" where
  "insert_desc r [] = [r]"
| "insert_desc r (s # rows) =
     (if np_ge (pmi_of r) (pmi_of s) then r # s # rows else s # insert_desc r rows)"

definition sort_values_stable :: "'a collocation list \<Rightarrow> 'a collocation list" where
  "sort_values_stable rows = foldr insert_desc rows []"

text \<open>A second instance, which leaves ties in the reverse of their order.\<close>

definition sort_values_rev :: "'a collocation list \<Rightarrow> 'a collocation list" where
  "sort_values_rev rows = sort_values_stable (rev rows)"

subsection \<open>The pipeline\<close>

record 'a analysis =
  cooccurrence_matrix :: "('a, nat) dataframe"
  pmi_matrix :: "('a, npfloat) dataframe"
  top_collocations :: "'a collocation list"

text \<open>\<^verbatim>\<open>json.loads\<close> is outside the model: the pipeline starts from the parsed posts.\<close>

definition analyze_hashtag_collocations ::
  "(string \<Rightarrow> string) \<Rightarrow> (string list \<Rightarrow> string list)
     \<Rightarrow> (string collocation list \<Rightarrow> string collocation list)
     \<Rightarrow> 'r post_scheme list \<Rightarrow> string analysis" where
  "analyze_hashtag_collocations lower set_iter sort_values data =
     (let hashtag_lists = load_and_extract_hashtags lower data;
          (cooc, unique_hashtags) = calculate_cooccurrence_matrix set_iter hashtag_lists;
          pmi = calculate_pmi cooc;
          top = get_top_collocations_default sort_values pmi
      in \<lparr>cooccurrence_matrix = cooc, pmi_matrix = pmi, top_collocations = top\<rparr>)"

subsection \<open>Inputs used to run the model\<close>

text \<open>The three tag lists of the worked example.\<close>

definition example_lists :: "string list list" where
  "example_lists = [[''a'', ''b''], [''a'', ''b''], [''a'', ''c'']]"

text \<open>Four posts: two with tags, one without the key, one with an empty list.\<close>

definition example_posts :: "post list" where
  "example_posts =
     [\<lparr>hashtags = Some [''Climate'', ''B'']\<rparr>, \<lparr>hashtags = None\<rparr>,
      \<lparr>hashtags = Some []\<rparr>, \<lparr>hashtags = Some [''climate'', ''c'']\<rparr>]"

text \<open>The co-occurrence matrix of the two tag lists \<open>[a, b]\<close> and \<open>[c, d]\<close>.\<close>

definition example_cooc :: "(string, nat) dataframe" where
  "example_cooc = fst (calculate_cooccurrence_matrix remdups [[''a'', ''b''], [''c'', ''d'']])"

text \<open>The co-occurrence matrix of the one tag list \<open>[a, a, b]\<close>, which repeats a tag.\<close>

definition duplicate_cooc :: "(string, nat) dataframe" where
  "duplicate_cooc = fst (calculate_cooccurrence_matrix remdups [[''a'', ''a'', ''b'']])"

text \<open>A PMI matrix over three tags with one positive score, and one with none.\<close>

definition example_pmi :: "(string, npfloat) dataframe" where
  "example_pmi =
     \<lparr>labels = [''a'', ''b'', ''c''],
      loc = (\<lambda>r c. if (r, c) \<in> {(''a'', ''c''), (''c'', ''a'')} then Num 1 else Num 0)\<rparr>"

definition zero_pmi :: "(string, npfloat) dataframe" where
  "zero_pmi = \<lparr>labels = [''a'', ''b'', ''c''], loc = (\<lambda>_ _. Num 0)\<rparr>"

section \<open>Lemmas about the embedding\<close>

subsection \<open>The loops of the co-occurrence matrix\<close>

text \<open>
  After the loops a cell holds the number of visited pairs that are the cell or its mirror.
\<close>

lemma loc_incr_fun:
  "loc_incr a b m = (\<lambda>r c. m r c + (if (a, b) = (r, c) then 1 else 0))"
  by (intro ext) (simp add: loc_incr_def)

lemma count_pair_fun:
  "count_pair (a, b) m =
     (\<lambda>r c. m r c + (if (a, b) = (r, c) then 1 else 0) + (if (a, b) = (c, r) then 1 else 0))"
  unfolding count_pair_def prod.case loc_incr_fun by (intro ext) simp

lemma if_count_arith:
  "(x::nat) + (if P then 1 else 0) + (if Q then 1 else 0) + A + B =
     x + (if P then A + 1 else A) + (if Q then B + 1 else B)"
  by simp

lemma fold_count_pair_fun:
  "fold count_pair ps m = (\<lambda>r c. m r c + count_list ps (r, c) + count_list ps (c, r))"
proof (induction ps arbitrary: m)
  case Nil
  show ?case by simp
next
  case (Cons p ps)
  obtain a b where p: "p = (a, b)" by (cases p)
  show ?case
    unfolding p
    apply (simp only: fold_simps o_apply)
    apply (simp only: Cons.IH)
    apply (simp only: count_pair_fun)
    apply (intro ext)
    apply (simp only: count_list.simps)
    apply (rule if_count_arith)
    done
qed

lemma fold_count_post:
  "fold count_post ls m = fold count_pair (all_pairs ls) m"
  by (induction ls arbitrary: m) (simp_all add: all_pairs_def count_post_def)

lemma cooccurrence_cell:
  "loc (fst (calculate_cooccurrence_matrix set_iter ls)) r c =
     count_list (all_pairs ls) (r, c) + count_list (all_pairs ls) (c, r)"
  by (simp add: calculate_cooccurrence_matrix_def Let_def fold_count_post fold_count_pair_fun)

lemma cooccurrence_labels:
  "labels (fst (calculate_cooccurrence_matrix set_iter ls)) = sort (set_iter (concat ls))"
  by (simp add: calculate_cooccurrence_matrix_def Let_def)

lemma cooccurrence_snd:
  "snd (calculate_cooccurrence_matrix set_iter ls) = sort (set_iter (concat ls))"
  by (simp add: calculate_cooccurrence_matrix_def Let_def)

lemma set_combinations2: "set (combinations2 xs) \<subseteq> set xs \<times> set xs"
  by (induction xs) auto

lemma combinations2_distinct: "distinct xs \<Longrightarrow> (a, a) \<notin> set (combinations2 xs)"
proof (induction xs)
  case Nil
  show ?case by simp
next
  case (Cons x xs)
  then show ?case using set_combinations2 [of xs] by auto
qed

lemma length_combinations2_aux: "2 * length (combinations2 xs) + length xs = length xs * length xs"
  by (induction xs) simp_all

lemma length_combinations2_div: "length (combinations2 xs) = length xs * (length xs - 1) div 2"
proof -
  have "length xs * (length xs - 1) = 2 * length (combinations2 xs)"
    using length_combinations2_aux [of xs] by (simp add: diff_mult_distrib2)
  then show ?thesis by simp
qed

lemma set_all_pairs: "set (all_pairs ls) \<subseteq> set (concat ls) \<times> set (concat ls)"
  using set_combinations2 by (fastforce simp: all_pairs_def)

lemma length_all_pairs: "length (all_pairs ls) = (\<Sum>l\<leftarrow>ls. length l * (length l - 1) div 2)"
  by (induction ls) (simp_all add: all_pairs_def length_combinations2_div)

lemma set_iter_ok_remdups: "set_iter_ok remdups"
  by (simp add: set_iter_ok_def)

lemma set_iter_sorted:
  assumes "set_iter_ok set_iter"
  shows "sort (set_iter xs) = sorted_list_of_set (set xs)"
proof -
  have "distinct (set_iter xs)" and "set (set_iter xs) = set xs"
    using assms by (simp_all add: set_iter_ok_def)
  then show ?thesis
    by (metis sorted_list_of_set_sort_remdups distinct_remdups_id)
qed

subsection \<open>The loops of the PMI matrix\<close>

text \<open>
  After the loops a cell holds the score of \<^verbatim>\<open>np.log2\<close> when both tags are labels, they
  differ and their joint probability is positive, and the initial 0 otherwise.
\<close>

lemma pmi_step_fun:
  "pmi_step df tag1 tag2 acc =
     (\<lambda>r c. if (tag1, tag2) = (r, c) \<and> pmi_written df (r, c) then pmi_formula df r c else acc r c)"
  by (intro ext) (simp add: pmi_step_def pmi_formula_def pmi_written_def Let_def)

lemma fold_pmi_step:
  "fold (pmi_step df tag1) cs acc =
     (\<lambda>r c. if r = tag1 \<and> c \<in> set cs \<and> pmi_written df (r, c) then pmi_formula df r c else acc r c)"
proof (induction cs arbitrary: acc)
  case Nil
  show ?case by simp
next
  case (Cons c' cs)
  have "fold (pmi_step df tag1) (c' # cs) acc = fold (pmi_step df tag1) cs (pmi_step df tag1 c' acc)"
    by simp
  also have "\<dots> = (\<lambda>r c. if r = tag1 \<and> c \<in> set cs \<and> pmi_written df (r, c)
                         then pmi_formula df r c else pmi_step df tag1 c' acc r c)"
    by (rule Cons.IH)
  also have "\<dots> = (\<lambda>r c. if r = tag1 \<and> c \<in> set (c' # cs) \<and> pmi_written df (r, c)
                         then pmi_formula df r c else acc r c)"
    unfolding pmi_step_fun by (intro ext) auto
  finally show ?case .
qed

lemma fold_fold_pmi_step:
  "fold (\<lambda>tag1. fold (pmi_step df tag1) cs) rs acc =
     (\<lambda>r c. if r \<in> set rs \<and> c \<in> set cs \<and> pmi_written df (r, c) then pmi_formula df r c else acc r c)"
proof (induction rs arbitrary: acc)
  case Nil
  show ?case by simp
next
  case (Cons r' rs)
  have "fold (\<lambda>tag1. fold (pmi_step df tag1) cs) (r' # rs) acc =
          fold (\<lambda>tag1. fold (pmi_step df tag1) cs) rs (fold (pmi_step df r') cs acc)"
    by simp
  also have "\<dots> = (\<lambda>r c. if r \<in> set rs \<and> c \<in> set cs \<and> pmi_written df (r, c)
                         then pmi_formula df r c else fold (pmi_step df r') cs acc r c)"
    by (rule Cons.IH)
  also have "\<dots> = (\<lambda>r c. if r \<in> set (r' # rs) \<and> c \<in> set cs \<and> pmi_written df (r, c)
                         then pmi_formula df r c else acc r c)"
    unfolding fold_pmi_step by (intro ext) auto
  finally show ?case .
qed

lemma calculate_pmi_loc:
  "loc (calculate_pmi df) r c =
     (if r \<in> set (labels df) \<and> c \<in> set (labels df) \<and> pmi_written df (r, c)
      then pmi_formula df r c else Num 0)"
  by (simp add: calculate_pmi_def fold_fold_pmi_step)

lemma calculate_pmi_labels: "labels (calculate_pmi df) = labels df"
  by (simp add: calculate_pmi_def)

lemma np_mul_commute: "np_mul a b = np_mul b a"
  by (cases a; cases b) (simp_all add: mult.commute)

subsection \<open>Sums, symmetry and the diagonal\<close>

lemma sum_sum_set:
  assumes "distinct (labels df)"
  shows "sum_sum df = (\<Sum>c\<in>set (labels df). \<Sum>r\<in>set (labels df). loc df r c)"
  using assms by (simp add: sum_sum_def col_sum_def sum_list_distinct_conv_sum_set)

lemma sum_count_pairs:
  assumes "finite S" and "set ps \<subseteq> S \<times> S"
  shows "(\<Sum>c\<in>S. \<Sum>r\<in>S. count_list ps (r, c) + count_list ps (c, r)) = 2 * length ps"
proof -
  have total: "sum (count_list ps) (S \<times> S) = length ps"
    using assms by (intro sum_count_set) auto
  have one: "(\<Sum>c\<in>S. \<Sum>r\<in>S. count_list ps (c, r)) = length ps"
    using total by (simp add: sum.cartesian_product)
  have "(\<Sum>c\<in>S. \<Sum>r\<in>S. count_list ps (r, c)) = (\<Sum>r\<in>S. \<Sum>c\<in>S. count_list ps (r, c))"
    by (rule sum.swap)
  then have two: "(\<Sum>c\<in>S. \<Sum>r\<in>S. count_list ps (r, c)) = length ps"
    using total by (simp add: sum.cartesian_product)
  have "(\<Sum>c\<in>S. \<Sum>r\<in>S. count_list ps (r, c) + count_list ps (c, r)) =
        (\<Sum>c\<in>S. \<Sum>r\<in>S. count_list ps (r, c)) + (\<Sum>c\<in>S. \<Sum>r\<in>S. count_list ps (c, r))"
    by (simp add: sum.distrib)
  then show ?thesis using one two by simp
qed

lemma cooccurrence_sum_sum:
  assumes "set_iter_ok set_iter"
  shows "sum_sum (fst (calculate_cooccurrence_matrix set_iter ls)) = 2 * length (all_pairs ls)"
proof -
  let ?df = "fst (calculate_cooccurrence_matrix set_iter ls)"
  have d: "distinct (labels ?df)" and s: "set (labels ?df) = set (concat ls)"
    using assms by (simp_all add: cooccurrence_labels set_iter_ok_def)
  have "sum_sum ?df = (\<Sum>c\<in>set (concat ls). \<Sum>r\<in>set (concat ls).
          count_list (all_pairs ls) (r, c) + count_list (all_pairs ls) (c, r))"
    unfolding sum_sum_set [OF d] s cooccurrence_cell ..
  also have "\<dots> = 2 * length (all_pairs ls)"
    by (rule sum_count_pairs [OF finite_set set_all_pairs])
  finally show ?thesis .
qed

lemma all_pairs_distinct:
  assumes "\<forall>l\<in>set ls. distinct l"
  shows "(a, a) \<notin> set (all_pairs ls)"
  using assms combinations2_distinct by (fastforce simp: all_pairs_def)

lemma cooccurrence_symmetric:
  "loc (fst (calculate_cooccurrence_matrix set_iter ls)) a b =
   loc (fst (calculate_cooccurrence_matrix set_iter ls)) b a"
  by (simp add: cooccurrence_cell)

lemma pmi_symmetric:
  assumes "\<And>a b. loc df a b = loc df b a"
  shows "loc (calculate_pmi df) a b = loc (calculate_pmi df) b a"
proof -
  have j: "joint_prob df a b = joint_prob df b a"
    by (simp add: joint_prob_def assms)
  have w: "pmi_written df (a, b) = pmi_written df (b, a)"
    using j by (auto simp: pmi_written_def)
  have f: "pmi_formula df a b = pmi_formula df b a"
    using j by (simp add: pmi_formula_def np_mul_commute [of "marginal_probs df a"])
  show ?thesis
    unfolding calculate_pmi_loc w f by (simp add: conj_commute)
qed

lemma pmi_diagonal: "loc (calculate_pmi df) a a = Num 0"
  by (simp add: calculate_pmi_loc pmi_written_def)

lemma loc_le_col_sum: "r \<in> set (labels df) \<Longrightarrow> loc df r c \<le> col_sum df c"
  unfolding col_sum_def by (rule member_le_sum_list) auto

lemma col_sum_le_sum_sum: "c \<in> set (labels df) \<Longrightarrow> col_sum df c \<le> sum_sum df"
  unfolding sum_sum_def by (rule member_le_sum_list) auto

lemma total_cooccurrences_Num: "total_cooccurrences df = Num (real (sum_sum df) / 2)"
  by (simp add: total_cooccurrences_def)

lemma pmi_zero_total:
  assumes "sum_sum df = 0"
  shows "loc (calculate_pmi df) r c = Num 0"
proof (cases "r \<in> set (labels df) \<and> c \<in> set (labels df)")
  case True
  then have "loc df r c = 0"
    using loc_le_col_sum [of r df c] col_sum_le_sum_sum [of c df] assms by simp
  then have "joint_prob df r c = NaN"
    by (simp add: joint_prob_def total_cooccurrences_Num assms)
  then show ?thesis by (simp add: calculate_pmi_loc pmi_written_def)
next
  case False
  then show ?thesis by (auto simp: calculate_pmi_loc)
qed

subsection \<open>The insertion sort and \<^verbatim>\<open>head\<close>\<close>

lemma np_ge_total: "np_ge a b \<or> np_ge b a"
  by (cases a; cases b) auto

lemma np_ge_trans: "np_ge a b \<Longrightarrow> np_ge b c \<Longrightarrow> np_ge a c"
  by (cases a; cases b; cases c) auto

lemma mset_insert_desc: "mset (insert_desc r rows) = add_mset r (mset rows)"
  by (induction rows) simp_all

lemma set_insert_desc: "set (insert_desc r rows) = insert r (set rows)"
  by (induction rows) auto

lemma sorted_insert_desc:
  assumes "sorted_wrt (\<lambda>r s. np_ge (pmi_of r) (pmi_of s)) rows"
  shows "sorted_wrt (\<lambda>r s. np_ge (pmi_of r) (pmi_of s)) (insert_desc r rows)"
  using assms
proof (induction rows)
  case Nil
  show ?case by simp
next
  case (Cons s rows)
  show ?case
  proof (cases "np_ge (pmi_of r) (pmi_of s)")
    case True
    then have "\<forall>t\<in>set rows. np_ge (pmi_of r) (pmi_of t)"
      using Cons.prems np_ge_trans by auto
    then show ?thesis using True Cons.prems by simp
  next
    case False
    then have "np_ge (pmi_of s) (pmi_of r)"
      using np_ge_total by blast
    then show ?thesis
      using False Cons by (simp add: set_insert_desc)
  qed
qed

lemma mset_sort_values_stable: "mset (sort_values_stable rows) = mset rows"
  by (induction rows) (simp_all add: sort_values_stable_def mset_insert_desc)

lemma sorted_sort_values_stable:
  "sorted_wrt (\<lambda>r s. np_ge (pmi_of r) (pmi_of s)) (sort_values_stable rows)"
  by (induction rows) (simp_all add: sort_values_stable_def sorted_insert_desc)

lemma sort_values_ok_stable: "sort_values_ok sort_values_stable"
  by (simp add: sort_values_ok_def mset_sort_values_stable sorted_sort_values_stable)

lemma length_df_head: "0 \<le> n \<Longrightarrow> int (length (df_head n rows)) \<le> n"
  by (simp add: df_head_def)

lemma df_head_all: "int (length rows) \<le> n \<Longrightarrow> df_head n rows = rows"
  by (simp add: df_head_def)

lemma sorted_df_head: "sorted_wrt P rows \<Longrightarrow> sorted_wrt P (df_head n rows)"
  by (simp add: df_head_def sorted_wrt_take)

lemma sort_values_length: "sort_values_ok sort_values \<Longrightarrow> length (sort_values rows) = length rows"
  by (metis sort_values_ok_def size_mset)

subsection \<open>The extractor and the iteration order of the set\<close>

lemma load_and_extract_eq:
  "load_and_extract_hashtags lower data =
     map (map lower) (filter (\<lambda>tags. tags \<noteq> []) (List.map_filter hashtags data))"
  by (induction data) (simp_all add: List.map_filter_simps Let_def split: option.splits)

lemma calculate_cooccurrence_matrix_set_iter:
  assumes "set_iter_ok it1" and "set_iter_ok it2"
  shows "calculate_cooccurrence_matrix it1 ls = calculate_cooccurrence_matrix it2 ls"
  unfolding calculate_cooccurrence_matrix_def set_iter_sorted [OF assms(1)] set_iter_sorted [OF assms(2)] ..

subsection \<open>The worked example\<close>

lemma ex_pairs: "all_pairs example_lists = [(''a'', ''b''), (''a'', ''b''), (''a'', ''c'')]"
  by (simp add: all_pairs_def example_lists_def)

lemma ex_labels:
  assumes "set_iter_ok set_iter"
  shows "labels (fst (calculate_cooccurrence_matrix set_iter example_lists)) = [''a'', ''b'', ''c'']"
  unfolding cooccurrence_labels set_iter_sorted [OF assms] sorted_list_of_set_sort_remdups
  by (simp add: example_lists_def)

lemma ex_cell:
  "loc (fst (calculate_cooccurrence_matrix set_iter example_lists)) r c =
     count_list [(''a'', ''b''), (''a'', ''b''), (''a'', ''c'')] (r, c) +
     count_list [(''a'', ''b''), (''a'', ''b''), (''a'', ''c'')] (c, r)"
  by (simp only: cooccurrence_cell ex_pairs)

lemma ex_col_sums:
  assumes "set_iter_ok set_iter"
  shows "col_sum (fst (calculate_cooccurrence_matrix set_iter example_lists)) ''a'' = 3"
    and "col_sum (fst (calculate_cooccurrence_matrix set_iter example_lists)) ''b'' = 2"
    and "col_sum (fst (calculate_cooccurrence_matrix set_iter example_lists)) ''c'' = 1"
  unfolding col_sum_def ex_labels [OF assms] by (simp_all add: ex_cell)

lemma ex_sum_sum:
  assumes "set_iter_ok set_iter"
  shows "sum_sum (fst (calculate_cooccurrence_matrix set_iter example_lists)) = 6"
  unfolding sum_sum_def ex_labels [OF assms] by (simp add: ex_col_sums [OF assms])

lemma ex_total:
  assumes "set_iter_ok set_iter"
  shows "total_cooccurrences (fst (calculate_cooccurrence_matrix set_iter example_lists)) = Num 3"
  by (simp add: total_cooccurrences_Num ex_sum_sum [OF assms])

lemma ex_marginals:
  assumes "set_iter_ok set_iter"
  shows "marginal_probs (fst (calculate_cooccurrence_matrix set_iter example_lists)) ''a'' = Num 1"
    and "marginal_probs (fst (calculate_cooccurrence_matrix set_iter example_lists)) ''b'' = Num (2 / 3)"
    and "marginal_probs (fst (calculate_cooccurrence_matrix set_iter example_lists)) ''c'' = Num (1 / 3)"
  by (simp_all add: marginal_probs_def ex_total [OF assms] ex_col_sums [OF assms])

lemma ex_joint:
  assumes "set_iter_ok set_iter"
  shows "joint_prob (fst (calculate_cooccurrence_matrix set_iter example_lists)) ''a'' ''b'' = Num (2 / 3)"
    and "joint_prob (fst (calculate_cooccurrence_matrix set_iter example_lists)) ''a'' ''c'' = Num (1 / 3)"
    and "joint_prob (fst (calculate_cooccurrence_matrix set_iter example_lists)) ''b'' ''c'' = Num 0"
  by (simp_all add: joint_prob_def ex_total [OF assms] ex_cell)

lemma ex_pmi:
  assumes "set_iter_ok set_iter"
  shows "loc (calculate_pmi (fst (calculate_cooccurrence_matrix set_iter example_lists))) ''a'' ''b'' = Num 0"
    and "loc (calculate_pmi (fst (calculate_cooccurrence_matrix set_iter example_lists))) ''a'' ''c'' = Num 0"
    and "loc (calculate_pmi (fst (calculate_cooccurrence_matrix set_iter example_lists))) ''b'' ''c'' = Num 0"
  by (simp_all add: calculate_pmi_loc pmi_written_def pmi_formula_def ex_labels [OF assms]
        ex_joint [OF assms] ex_marginals [OF assms])

lemma ex_pmi_values:
  assumes "set_iter_ok set_iter"
  shows "pmi_values (calculate_pmi (fst (calculate_cooccurrence_matrix set_iter example_lists))) =
           [(''a'', ''b'', Num 0), (''a'', ''c'', Num 0), (''b'', ''c'', Num 0)]"
  by (simp add: pmi_values_def calculate_pmi_labels ex_labels [OF assms] ex_pmi [OF assms])

lemma ex_top:
  assumes "set_iter_ok set_iter" and "sort_values_ok sort_values"
  shows "mset (get_top_collocations sort_values
            (calculate_pmi (fst (calculate_cooccurrence_matrix set_iter example_lists))) 10) =
           {#(''a'', ''b'', Num 0), (''a'', ''c'', Num 0), (''b'', ''c'', Num 0)#}"
proof -
  let ?rows = "[(''a'', ''b'', Num 0), (''a'', ''c'', Num 0), (''b'', ''c'', Num 0)]"
  have "length (sort_values ?rows) = 3"
    using sort_values_length [OF assms(2), of ?rows] by simp
  then have "df_head 10 (sort_values ?rows) = sort_values ?rows"
    by (intro df_head_all) simp
  moreover have "mset (sort_values ?rows) = mset ?rows"
    using assms(2) by (simp add: sort_values_ok_def)
  ultimately show ?thesis
    by (simp add: get_top_collocations_def ex_pmi_values [OF assms(1)])
qed

subsection \<open>Inputs without a pair\<close>

lemma all_pairs_short:
  assumes "\<forall>tags\<in>set ls. length tags \<le> 1"
  shows "all_pairs ls = []"
proof -
  have "combinations2 tags = []" if "length tags \<le> 1" for tags :: "'a list"
    using that by (cases tags) auto
  then show ?thesis using assms by (simp add: all_pairs_def)
qed

lemma sum_sum_zero_cells:
  assumes "\<And>r c. loc df r c = 0"
  shows "sum_sum df = 0"
  by (simp add: sum_sum_def col_sum_def assms)

lemma set_iter_Nil: "set_iter_ok set_iter \<Longrightarrow> set_iter [] = []"
  by (metis set_iter_ok_def set_empty)

lemma sort_values_Nil: "sort_values_ok sort_values \<Longrightarrow> sort_values [] = []"
  by (metis sort_values_ok_def mset_zero_iff)

lemma analyze_no_records:
  assumes "set_iter_ok set_iter" and "sort_values_ok sort_values"
  shows "analyze_hashtag_collocations lower set_iter sort_values [] =
           \<lparr>cooccurrence_matrix = \<lparr>labels = [], loc = (\<lambda>_ _. 0)\<rparr>,
            pmi_matrix = \<lparr>labels = [], loc = (\<lambda>_ _. Num 0)\<rparr>,
            top_collocations = []\<rparr>"
  by (simp add: analyze_hashtag_collocations_def calculate_cooccurrence_matrix_def
      calculate_pmi_def get_top_collocations_default_def get_top_collocations_def
      pmi_values_def df_head_def set_iter_Nil [OF assms(1)] sort_values_Nil [OF assms(2)])

subsection \<open>The example inputs\<close>

lemma set_iter_ok_rev_remdups: "set_iter_ok (\<lambda>xs. rev (remdups xs))"
  by (simp add: set_iter_ok_def)

lemma example_posts_extracted:
  "load_and_extract_hashtags ascii_lower example_posts = [[''climate'', ''b''], [''climate'', ''c'']]"
  by (simp add: example_posts_def ascii_lower_def ascii_lower_char_def)

lemma example_cooc_labels: "labels example_cooc = [''a'', ''b'', ''c'', ''d'']"
  by (simp add: example_cooc_def cooccurrence_labels)

lemma example_cooc_cell:
  "loc example_cooc r c =
     count_list [(''a'', ''b''), (''c'', ''d'')] (r, c) + count_list [(''a'', ''b''), (''c'', ''d'')] (c, r)"
proof -
  have "all_pairs [[''a'', ''b''], [''c'', ''d'']] = [(''a'', ''b''), (''c'', ''d'')]"
    by (simp add: all_pairs_def)
  then show ?thesis by (simp only: example_cooc_def cooccurrence_cell)
qed

lemma example_cooc_sums:
  "col_sum example_cooc ''a'' = 1" "col_sum example_cooc ''b'' = 1" "col_sum example_cooc ''c'' = 1"
  "col_sum example_cooc ''d'' = 1"
  unfolding col_sum_def example_cooc_labels by (simp_all add: example_cooc_cell)

lemma example_cooc_sum_sum: "sum_sum example_cooc = 4"
  unfolding sum_sum_def example_cooc_labels by (simp add: example_cooc_sums)

lemma example_cooc_symmetric: "\<forall>a b. loc example_cooc a b = loc example_cooc b a"
  unfolding example_cooc_def by (intro allI) (rule cooccurrence_symmetric)

lemma example_pmi_values:
  "pmi_values example_pmi = [(''a'', ''b'', Num 0), (''a'', ''c'', Num 1), (''b'', ''c'', Num 0)]"
  by (simp add: pmi_values_def example_pmi_def)

lemma example_pmi_top2:
  "get_top_collocations sort_values_stable example_pmi 2 =
     [(''a'', ''c'', Num 1), (''a'', ''b'', Num 0)]"
  by (simp add: get_top_collocations_def example_pmi_values sort_values_stable_def df_head_def
      pmi_of_def)

lemma zero_pmi_values:
  "pmi_values zero_pmi = [(''a'', ''b'', Num 0), (''a'', ''c'', Num 0), (''b'', ''c'', Num 0)]"
  by (simp add: pmi_values_def zero_pmi_def)

subsection \<open>The score of a pair\<close>

lemma pmi_cell_value:
  assumes "tag1 \<in> set (labels df)" and "tag2 \<in> set (labels df)" and "tag1 \<noteq> tag2"
    and "0 < sum_sum df"
    and "\<forall>a b. loc df a b = loc df b a"
    and "tc = real (sum_sum df) / 2"
    and "jp = real (loc df tag1 tag2) / tc"
    and "m1 = real (col_sum df tag1) / tc"
    and "m2 = real (col_sum df tag2) / tc"
  shows "total_cooccurrences df = Num tc \<and> joint_prob df tag1 tag2 = Num jp \<and>
         marginal_probs df tag1 = Num m1 \<and> marginal_probs df tag2 = Num m2 \<and>
         (0 < jp \<longrightarrow> loc (calculate_pmi df) tag1 tag2 = Num (log 2 (jp / (m1 * m2)))) \<and>
         (\<not> 0 < jp \<longrightarrow> loc (calculate_pmi df) tag1 tag2 = Num 0)"
proof -
  have tot: "total_cooccurrences df = Num tc"
    by (simp add: total_cooccurrences_Num assms(6))
  have tpos: "0 < tc"
    using assms(4) by (simp add: assms(6))
  have j: "joint_prob df tag1 tag2 = Num jp"
    using tpos by (simp add: joint_prob_def tot assms(7))
  have ma: "marginal_probs df tag1 = Num m1" and mb: "marginal_probs df tag2 = Num m2"
    using tpos by (simp_all add: marginal_probs_def tot assms(8,9))
  have w: "pmi_written df (tag1, tag2) = (0 < jp)"
    using assms(3) by (simp add: pmi_written_def j)
  have pos: "loc (calculate_pmi df) tag1 tag2 = Num (log 2 (jp / (m1 * m2)))" if "0 < jp"
  proof -
    have c: "0 < loc df tag1 tag2"
      using that tpos by (simp add: assms(7) zero_less_divide_iff)
    have "loc df tag1 tag2 \<le> col_sum df tag2"
      by (rule loc_le_col_sum [OF assms(1)])
    then have p2: "0 < m2" using c tpos by (simp add: assms(9))
    have "loc df tag2 tag1 \<le> col_sum df tag1"
      by (rule loc_le_col_sum [OF assms(2)])
    then have "0 < col_sum df tag1" using c assms(5) by simp
    then have p1: "0 < m1" using tpos by (simp add: assms(8))
    have prod: "0 < m1 * m2" using p1 p2 by simp
    then have quot: "0 < jp / (m1 * m2)" using that by simp
    have nz: "m1 * m2 \<noteq> 0" using p1 p2 by simp
    have dv: "np_div (Num jp) (Num (m1 * m2)) = Num (jp / (m1 * m2))"
      by (simp only: np_div.simps nz not_False_eq_True if_True)
    have lg: "np_log2 (Num (jp / (m1 * m2))) = Num (log 2 (jp / (m1 * m2)))"
      using quot by simp
    have "pmi_formula df tag1 tag2 = Num (log 2 (jp / (m1 * m2)))"
      unfolding pmi_formula_def j ma mb np_mul.simps dv lg ..
    then show ?thesis
      using that assms(1,2) by (simp add: calculate_pmi_loc w)
  qed
  have neg: "loc (calculate_pmi df) tag1 tag2 = Num 0" if "\<not> 0 < jp"
    using that by (simp add: calculate_pmi_loc w)
  show ?thesis using tot j ma mb pos neg by blast
qed

lemma sum_list_filter_zero:
  assumes "\<And>x. x \<in> set xs \<Longrightarrow> \<not> P x \<Longrightarrow> f x = (0::nat)"
  shows "sum_list (map f (filter P xs)) = sum_list (map f xs)"
  using assms by (induction xs) simp_all

lemma spec_marginal_zero_diagonal:
  assumes "\<forall>a b. loc df a b = loc df b a" and "loc df t t = 0"
  shows "real (col_sum df t) / (real (sum_sum df) / 2) = spec_marginal df t"
proof -
  have "loc df r t = loc df t r" for r
    using assms(1) by blast
  then have col: "col_sum df t = sum_list (map (loc df t) (labels df))"
    by (simp only: col_sum_def)
  have "sum_list (map (loc df t) (filter (\<lambda>other. other \<noteq> t) (labels df))) =
        sum_list (map (loc df t) (labels df))"
    by (rule sum_list_filter_zero) (simp add: assms(2))
  then show ?thesis by (simp only: spec_marginal_def col)
qed

lemma duplicate_cooc_labels: "labels duplicate_cooc = [''a'', ''b'']"
  by (simp add: duplicate_cooc_def cooccurrence_labels)

lemma duplicate_cooc_cell:
  "loc duplicate_cooc r c =
     count_list [(''a'', ''a''), (''a'', ''b''), (''a'', ''b'')] (r, c) +
     count_list [(''a'', ''a''), (''a'', ''b''), (''a'', ''b'')] (c, r)"
proof -
  have "all_pairs [[''a'', ''a'', ''b'']] = [(''a'', ''a''), (''a'', ''b''), (''a'', ''b'')]"
    by (simp add: all_pairs_def)
  then show ?thesis by (simp only: duplicate_cooc_def cooccurrence_cell)
qed

lemma duplicate_cooc_sums:
  "col_sum duplicate_cooc ''a'' = 4" "col_sum duplicate_cooc ''b'' = 2"
  unfolding col_sum_def duplicate_cooc_labels by (simp_all add: duplicate_cooc_cell)

lemma duplicate_cooc_sum_sum: "sum_sum duplicate_cooc = 6"
  unfolding sum_sum_def duplicate_cooc_labels by (simp add: duplicate_cooc_sums)

lemma duplicate_cooc_symmetric: "\<forall>a b. loc duplicate_cooc a b = loc duplicate_cooc b a"
  unfolding duplicate_cooc_def by (intro allI) (rule cooccurrence_symmetric)

lemma duplicate_cooc_spec_marginals:
  "spec_marginal duplicate_cooc ''a'' = 2 / 3" "spec_marginal duplicate_cooc ''b'' = 2 / 3"
  unfolding spec_marginal_def duplicate_cooc_labels duplicate_cooc_sum_sum
  by (simp_all add: duplicate_cooc_cell)

subsection \<open>Ties\<close>

text \<open>
  Both instances of \<open>sort_values\<close> return a descending permutation, and they leave
  three tied rows in different orders: what \<open>sort_values\<close> guarantees does not fix the
  order of ties.
\<close>

lemma sort_values_ok_rev: "sort_values_ok sort_values_rev"
  by (simp add: sort_values_ok_def sort_values_rev_def mset_sort_values_stable
      sorted_sort_values_stable)

lemma zero_pmi_ties_stable:
  "get_top_collocations sort_values_stable zero_pmi 10 =
     [(''a'', ''b'', Num 0), (''a'', ''c'', Num 0), (''b'', ''c'', Num 0)]"
  by (simp add: get_top_collocations_def zero_pmi_values sort_values_stable_def df_head_def
      pmi_of_def)

lemma zero_pmi_ties_rev:
  "get_top_collocations sort_values_rev zero_pmi 10 =
     [(''b'', ''c'', Num 0), (''a'', ''c'', Num 0), (''a'', ''b'', Num 0)]"
  by (simp add: get_top_collocations_def zero_pmi_values sort_values_rev_def
      sort_values_stable_def df_head_def pmi_of_def)

section \<open>The claims\<close>

subsection \<open>C1: the worked example\<close>

text \<open>
  Claim C1, as amended. For the three tag lists \<open>[a, b]\<close>, \<open>[a, b]\<close>, \<open>[a, c]\<close> the
  vocabulary is \<open>[a, b, c]\<close>; the co-occurrence counts are 2 for \<open>(a, b)\<close>, 1 for
  \<open>(a, c)\<close> and 0 for \<open>(b, c)\<close>; the total is 3; the marginals are 1, 2/3 and 1/3; the
  PMI of \<open>(a, b)\<close>, of \<open>(a, c)\<close> and of \<open>(b, c)\<close> is 0; and the list of the top ten
  collocations holds exactly the three pairs \<open>(a, b)\<close>, \<open>(a, c)\<close> and \<open>(b, c)\<close>, each
  with score 0, in the order the sort leaves them. This holds for every iteration order
  of the set and every sort that returns a descending permutation.
\<close>

theorem worked_example:
  assumes "set_iter_ok set_iter" and "sort_values_ok sort_values"
    and "cooc = fst (calculate_cooccurrence_matrix set_iter example_lists)"
    and "pmi = calculate_pmi cooc"
  shows "snd (calculate_cooccurrence_matrix set_iter example_lists) = [''a'', ''b'', ''c''] \<and>
         labels cooc = [''a'', ''b'', ''c''] \<and>
         loc cooc ''a'' ''b'' = 2 \<and> loc cooc ''a'' ''c'' = 1 \<and> loc cooc ''b'' ''c'' = 0 \<and>
         total_cooccurrences cooc = Num 3 \<and>
         marginal_probs cooc ''a'' = Num 1 \<and> marginal_probs cooc ''b'' = Num (2 / 3) \<and>
         marginal_probs cooc ''c'' = Num (1 / 3) \<and>
         loc pmi ''a'' ''b'' = Num 0 \<and> loc pmi ''a'' ''c'' = Num 0 \<and> loc pmi ''b'' ''c'' = Num 0 \<and>
         mset (get_top_collocations sort_values pmi 10) =
           {#(''a'', ''b'', Num 0), (''a'', ''c'', Num 0), (''b'', ''c'', Num 0)#}"
proof -
  note ok = assms(1)
  have "snd (calculate_cooccurrence_matrix set_iter example_lists) = [''a'', ''b'', ''c'']"
    using ex_labels [OF ok] by (simp add: cooccurrence_snd cooccurrence_labels)
  moreover have "labels cooc = [''a'', ''b'', ''c'']"
    unfolding assms(3) by (rule ex_labels [OF ok])
  moreover have "loc cooc ''a'' ''b'' = 2" "loc cooc ''a'' ''c'' = 1" "loc cooc ''b'' ''c'' = 0"
    unfolding assms(3) by (simp_all add: ex_cell)
  moreover have "total_cooccurrences cooc = Num 3"
    unfolding assms(3) by (rule ex_total [OF ok])
  moreover have "marginal_probs cooc ''a'' = Num 1" "marginal_probs cooc ''b'' = Num (2 / 3)"
    "marginal_probs cooc ''c'' = Num (1 / 3)"
    unfolding assms(3) by (rule ex_marginals [OF ok])+
  moreover have "loc pmi ''a'' ''b'' = Num 0" "loc pmi ''a'' ''c'' = Num 0" "loc pmi ''b'' ''c'' = Num 0"
    unfolding assms(3,4) by (rule ex_pmi [OF ok])+
  moreover have "mset (get_top_collocations sort_values pmi 10) =
      {#(''a'', ''b'', Num 0), (''a'', ''c'', Num 0), (''b'', ''c'', Num 0)#}"
    unfolding assms(3,4) by (rule ex_top [OF ok assms(2)])
  ultimately show ?thesis by blast
qed

text \<open>The theorem at \<open>remdups\<close> and the insertion sort.\<close>

theorem worked_example_witness:
  "set_iter_ok (remdups :: string list \<Rightarrow> string list) \<and>
   sort_values_ok (sort_values_stable :: string collocation list \<Rightarrow> string collocation list) \<and>
   snd (calculate_cooccurrence_matrix remdups example_lists) = [''a'', ''b'', ''c''] \<and>
   loc (fst (calculate_cooccurrence_matrix remdups example_lists)) ''a'' ''b'' = 2 \<and>
   loc (calculate_pmi (fst (calculate_cooccurrence_matrix remdups example_lists))) ''a'' ''b'' = Num 0 \<and>
   mset (get_top_collocations sort_values_stable
           (calculate_pmi (fst (calculate_cooccurrence_matrix remdups example_lists))) 10) =
     {#(''a'', ''b'', Num 0), (''a'', ''c'', Num 0), (''b'', ''c'', Num 0)#}"
  using worked_example [OF set_iter_ok_remdups sort_values_ok_stable refl refl]
    set_iter_ok_remdups sort_values_ok_stable
  by blast

text \<open>
  The claim as stated says that the pair \<open>(b, c)\<close> is absent from the list. The loops of
  \<^verbatim>\<open>get_top_collocations\<close> append every pair of the upper triangle, whatever its score,
  and three rows are fewer than ten: the row \<open>(b, c, 0)\<close> is in the list.
\<close>

theorem worked_example_lists_b_c:
  "(''b'', ''c'', Num 0) \<in> set (get_top_collocations sort_values_stable
      (calculate_pmi (fst (calculate_cooccurrence_matrix remdups example_lists))) 10)"
proof -
  have "(''b'', ''c'', Num 0) \<in># mset (get_top_collocations sort_values_stable
      (calculate_pmi (fst (calculate_cooccurrence_matrix remdups example_lists))) 10)"
    unfolding ex_top [OF set_iter_ok_remdups sort_values_ok_stable] by simp
  then show ?thesis by simp
qed

subsection \<open>C2: the diagonal\<close>

text \<open>
  Claim C2, as amended. The diagonal of the PMI matrix is 0 for every input. The cell
  \<open>(a, a)\<close> of the co-occurrence matrix is twice the number of pairs of positions of one
  tag list that both hold \<open>a\<close>; it is 0 when no tag list holds a tag twice.
\<close>

theorem diagonal:
  assumes "cooc = fst (calculate_cooccurrence_matrix set_iter hashtag_lists)"
  shows "loc (calculate_pmi cooc) a a = Num 0 \<and>
         loc cooc a a = 2 * count_list (all_pairs hashtag_lists) (a, a) \<and>
         ((\<forall>tags\<in>set hashtag_lists. distinct tags) \<longrightarrow> loc cooc a a = 0)"
proof (intro conjI impI)
  show "loc (calculate_pmi cooc) a a = Num 0" by (rule pmi_diagonal)
  show "loc cooc a a = 2 * count_list (all_pairs hashtag_lists) (a, a)"
    unfolding assms by (simp add: cooccurrence_cell)
  assume "\<forall>tags\<in>set hashtag_lists. distinct tags"
  then have "(a, a) \<notin> set (all_pairs hashtag_lists)" by (rule all_pairs_distinct)
  then have "count_list (all_pairs hashtag_lists) (a, a) = 0" by (simp add: count_list_0_iff)
  then show "loc cooc a a = 0" unfolding assms by (simp add: cooccurrence_cell)
qed

text \<open>The theorem at the worked example, whose lists repeat no tag.\<close>

theorem diagonal_witness:
  "loc (calculate_pmi (fst (calculate_cooccurrence_matrix remdups example_lists))) ''a'' ''a'' = Num 0 \<and>
   loc (fst (calculate_cooccurrence_matrix remdups example_lists)) ''a'' ''a'' = 0"
  using diagonal [OF refl, of remdups example_lists "''a''"]
  by (simp add: example_lists_def)

text \<open>
  The claim as stated covers lists that repeat a tag. \<^verbatim>\<open>combinations(['a', 'a'], 2)\<close>
  yields the pair \<open>(a, a)\<close>, and both increments of the loop body hit the cell
  \<open>(a, a)\<close>.
\<close>

theorem diagonal_duplicate_tag:
  "loc (fst (calculate_cooccurrence_matrix remdups [[''a'', ''a'']])) ''a'' ''a'' = 2"
  by (simp add: cooccurrence_cell all_pairs_def)

subsection \<open>C4: no co-occurrence at all\<close>

text \<open>
  Claim C4. When the entries of the co-occurrence matrix sum to 0, the total is 0, every
  joint probability of two labels is the NaN that numpy returns for \<open>0 / 0\<close> (it raises
  nothing), the test \<^verbatim>\<open>joint_prob > 0\<close> fails, and every cell of the PMI matrix keeps
  its initial 0. Tag lists of at most one tag each give such a matrix. For zero records
  the pipeline returns an empty vocabulary, two matrices without labels and an empty
  list of collocations.
\<close>

theorem zero_total:
  "(sum_sum df = 0 \<longrightarrow>
      total_cooccurrences df = Num 0 \<and> labels (calculate_pmi df) = labels df \<and>
      (\<forall>r c. r \<in> set (labels df) \<and> c \<in> set (labels df) \<longrightarrow> joint_prob df r c = NaN) \<and>
      (\<forall>r c. loc (calculate_pmi df) r c = Num 0)) \<and>
   ((\<forall>tags\<in>set hashtag_lists. length tags \<le> 1) \<longrightarrow>
      sum_sum (fst (calculate_cooccurrence_matrix set_iter hashtag_lists)) = 0) \<and>
   (set_iter_ok set_iter \<and> sort_values_ok sort_values \<longrightarrow>
      analyze_hashtag_collocations lower set_iter sort_values [] =
        \<lparr>cooccurrence_matrix = \<lparr>labels = [], loc = (\<lambda>_ _. 0)\<rparr>,
         pmi_matrix = \<lparr>labels = [], loc = (\<lambda>_ _. Num 0)\<rparr>,
         top_collocations = []\<rparr>)"
proof (intro conjI impI allI)
  assume z: "sum_sum df = 0"
  show "total_cooccurrences df = Num 0"
    by (simp add: total_cooccurrences_Num z)
  show "labels (calculate_pmi df) = labels df"
    by (rule calculate_pmi_labels)
  show "loc (calculate_pmi df) r c = Num 0" for r c
    by (rule pmi_zero_total [OF z])
  show "joint_prob df r c = NaN" if "r \<in> set (labels df) \<and> c \<in> set (labels df)" for r c
  proof -
    have "loc df r c = 0"
      using that loc_le_col_sum [of r df c] col_sum_le_sum_sum [of c df] z by simp
    then show ?thesis by (simp add: joint_prob_def total_cooccurrences_Num z)
  qed
next
  assume "\<forall>tags\<in>set hashtag_lists. length tags \<le> 1"
  then have "all_pairs hashtag_lists = []" by (rule all_pairs_short)
  then show "sum_sum (fst (calculate_cooccurrence_matrix set_iter hashtag_lists)) = 0"
    by (intro sum_sum_zero_cells) (simp add: cooccurrence_cell)
next
  assume "set_iter_ok set_iter \<and> sort_values_ok sort_values"
  then show "analyze_hashtag_collocations lower set_iter sort_values [] =
        \<lparr>cooccurrence_matrix = \<lparr>labels = [], loc = (\<lambda>_ _. 0)\<rparr>,
         pmi_matrix = \<lparr>labels = [], loc = (\<lambda>_ _. Num 0)\<rparr>,
         top_collocations = []\<rparr>"
    by (simp add: analyze_no_records)
qed

text \<open>The theorem at two posts of one tag each, and at zero records.\<close>

theorem zero_total_witness:
  "sum_sum (fst (calculate_cooccurrence_matrix remdups [[''a''], [''b'']])) = 0 \<and>
   loc (calculate_pmi (fst (calculate_cooccurrence_matrix remdups [[''a''], [''b'']]))) ''a'' ''b'' = Num 0 \<and>
   top_collocations (analyze_hashtag_collocations ascii_lower remdups sort_values_stable
     ([] :: post list)) = []"
proof -
  let ?ls = "[[''a''], [''b'']] :: string list list"
  note t = zero_total [of "fst (calculate_cooccurrence_matrix remdups ?ls)" ?ls remdups
      sort_values_stable ascii_lower]
  have short: "\<forall>tags\<in>set ?ls. length tags \<le> 1" by simp
  have s: "sum_sum (fst (calculate_cooccurrence_matrix remdups ?ls)) = 0"
    using t short by blast
  have p: "loc (calculate_pmi (fst (calculate_cooccurrence_matrix remdups ?ls))) ''a'' ''b'' = Num 0"
    using t s by blast
  have "analyze_hashtag_collocations ascii_lower remdups sort_values_stable ([] :: post list) =
        \<lparr>cooccurrence_matrix = \<lparr>labels = [], loc = (\<lambda>_ _. 0)\<rparr>,
         pmi_matrix = \<lparr>labels = [], loc = (\<lambda>_ _. Num 0)\<rparr>,
         top_collocations = []\<rparr>"
    using t set_iter_ok_remdups sort_values_ok_stable by blast
  then have "top_collocations (analyze_hashtag_collocations ascii_lower remdups sort_values_stable
     ([] :: post list)) = []"
    by simp
  then show ?thesis using s p by blast
qed

subsection \<open>C5: symmetry\<close>

text \<open>
  Claim C5. For every input and all tags \<open>a\<close>, \<open>b\<close> the co-occurrence matrix has the same
  count at \<open>(a, b)\<close> and at \<open>(b, a)\<close>, and so has the PMI matrix computed from it.
\<close>

theorem symmetry:
  "loc (fst (calculate_cooccurrence_matrix set_iter hashtag_lists)) a b =
     loc (fst (calculate_cooccurrence_matrix set_iter hashtag_lists)) b a \<and>
   loc (calculate_pmi (fst (calculate_cooccurrence_matrix set_iter hashtag_lists))) a b =
     loc (calculate_pmi (fst (calculate_cooccurrence_matrix set_iter hashtag_lists))) b a"
  using cooccurrence_symmetric [of set_iter hashtag_lists]
    pmi_symmetric [of "fst (calculate_cooccurrence_matrix set_iter hashtag_lists)" a b]
  by blast

subsection \<open>C6: count conservation\<close>

text \<open>
  Claim C6. The entries of the co-occurrence matrix sum to twice the number of pairs of
  positions of the tag lists, a list of length \<open>k\<close> counting for \<open>k * (k - 1) div 2\<close>
  pairs, the pairs \<^verbatim>\<open>combinations\<close> enumerates.
\<close>

theorem count_conservation:
  assumes "set_iter_ok set_iter"
  shows "sum_sum (fst (calculate_cooccurrence_matrix set_iter hashtag_lists)) =
           2 * (\<Sum>tags\<leftarrow>hashtag_lists. length tags * (length tags - 1) div 2) \<and>
         (\<Sum>tags\<leftarrow>hashtag_lists. length tags * (length tags - 1) div 2) =
           length (concat (map combinations2 hashtag_lists))"
  using cooccurrence_sum_sum [OF assms, of hashtag_lists] length_all_pairs [of hashtag_lists]
  by (simp add: all_pairs_def)

text \<open>The theorem at the lists \<open>[a, a, b]\<close> and \<open>[b, c]\<close>: three pairs and one.\<close>

theorem count_conservation_witness:
  "sum_sum (fst (calculate_cooccurrence_matrix remdups [[''a'', ''a'', ''b''], [''b'', ''c'']])) = 8"
  using count_conservation [OF set_iter_ok_remdups, of "[[''a'', ''a'', ''b''], [''b'', ''c'']]"]
  by simp

subsection \<open>C7: the extractor\<close>

text \<open>
  Claim C7. The extractor returns, in the order of the posts, the tag list of every post
  that has the key \<^verbatim>\<open>hashtags\<close> with at least one tag, every tag passed through
  \<open>lower\<close>. No list of the output is empty, and a post without the key or with an empty
  list changes nothing: the output is that of the input without this post. The function
  is total: it raises nothing for such posts.
\<close>

theorem extractor:
  "load_and_extract_hashtags lower data =
     map (map lower) (filter (\<lambda>tags. tags \<noteq> []) (List.map_filter hashtags data)) \<and>
   [] \<notin> set (load_and_extract_hashtags lower data) \<and>
   (hashtags p = None \<or> hashtags p = Some [] \<longrightarrow>
      load_and_extract_hashtags lower (before @ p # after) =
      load_and_extract_hashtags lower (before @ after))"
proof (intro conjI impI)
  show "load_and_extract_hashtags lower data =
     map (map lower) (filter (\<lambda>tags. tags \<noteq> []) (List.map_filter hashtags data))"
    by (rule load_and_extract_eq)
  show "[] \<notin> set (load_and_extract_hashtags lower data)"
    by (auto simp: load_and_extract_eq)
  assume "hashtags p = None \<or> hashtags p = Some []"
  then show "load_and_extract_hashtags lower (before @ p # after) =
      load_and_extract_hashtags lower (before @ after)"
    by (auto simp: load_and_extract_eq List.map_filter_def)
qed

text \<open>The theorem at the four example posts, the post without the key left out.\<close>

theorem extractor_witness:
  "load_and_extract_hashtags ascii_lower example_posts = [[''climate'', ''b''], [''climate'', ''c'']] \<and>
   load_and_extract_hashtags ascii_lower
     ([\<lparr>hashtags = Some [''Climate'', ''B'']\<rparr>] @ \<lparr>hashtags = None\<rparr> #
      [\<lparr>hashtags = Some []\<rparr>, \<lparr>hashtags = Some [''climate'', ''c'']\<rparr>]) =
   load_and_extract_hashtags ascii_lower
     ([\<lparr>hashtags = Some [''Climate'', ''B'']\<rparr>] @
      [\<lparr>hashtags = Some []\<rparr>, \<lparr>hashtags = Some [''climate'', ''c'']\<rparr>])"
proof -
  note t = extractor [of ascii_lower example_posts "\<lparr>hashtags = None\<rparr>"
      "[\<lparr>hashtags = Some [''Climate'', ''B'']\<rparr>]"
      "[\<lparr>hashtags = Some []\<rparr>, \<lparr>hashtags = Some [''climate'', ''c'']\<rparr>]"]
  have "hashtags \<lparr>hashtags = None\<rparr> = None \<or> hashtags \<lparr>hashtags = None\<rparr> = Some []"
    by simp
  then show ?thesis using t example_posts_extracted by blast
qed

subsection \<open>C8: the PMI of a pair\<close>

text \<open>
  Claim C8, as amended. Let the co-occurrence matrix be symmetric with a positive sum,
  and let \<open>tag1\<close> and \<open>tag2\<close> be two different labels. With \<open>tc\<close> half the sum of the
  entries, \<open>jp\<close> the count of the pair over \<open>tc\<close> and \<open>m1\<close>, \<open>m2\<close> the sums of the whole
  columns of the two tags, diagonal cell included, over \<open>tc\<close>: the total, the joint
  probability and the marginals the script computes are these numbers; when \<open>jp\<close> is
  positive the PMI cell is \<open>log 2 (jp / (m1 * m2))\<close>, and otherwise it is exactly 0. When
  the diagonal cells of the two tags are 0, \<open>m1\<close> and \<open>m2\<close> are the marginals of the
  specification, the sums over the other tags.
\<close>

theorem pmi_entry:
  assumes "tag1 \<in> set (labels df)" and "tag2 \<in> set (labels df)" and "tag1 \<noteq> tag2"
    and "0 < sum_sum df"
    and "\<forall>a b. loc df a b = loc df b a"
    and "tc = real (sum_sum df) / 2"
    and "jp = real (loc df tag1 tag2) / tc"
    and "m1 = real (col_sum df tag1) / tc"
    and "m2 = real (col_sum df tag2) / tc"
  shows "total_cooccurrences df = Num tc \<and> joint_prob df tag1 tag2 = Num jp \<and>
         marginal_probs df tag1 = Num m1 \<and> marginal_probs df tag2 = Num m2 \<and>
         (0 < jp \<longrightarrow> loc (calculate_pmi df) tag1 tag2 = Num (log 2 (jp / (m1 * m2)))) \<and>
         (\<not> 0 < jp \<longrightarrow> loc (calculate_pmi df) tag1 tag2 = Num 0) \<and>
         (loc df tag1 tag1 = 0 \<longrightarrow> m1 = spec_marginal df tag1) \<and>
         (loc df tag2 tag2 = 0 \<longrightarrow> m2 = spec_marginal df tag2)"
proof -
  have s1: "m1 = spec_marginal df tag1" if "loc df tag1 tag1 = 0"
    using spec_marginal_zero_diagonal [OF assms(5) that] by (simp only: assms(6,8))
  have s2: "m2 = spec_marginal df tag2" if "loc df tag2 tag2 = 0"
    using spec_marginal_zero_diagonal [OF assms(5) that] by (simp only: assms(6,9))
  show ?thesis
    using pmi_cell_value [OF assms] s1 s2 by blast
qed

text \<open>
  The theorem at the matrix of the tag lists \<open>[a, b]\<close> and \<open>[c, d]\<close>, whose diagonal is
  0: the marginal of \<open>a\<close> is 1/2 in both readings, the pair \<open>(a, b)\<close> has PMI
  \<open>log 2 ((1/2) / ((1/2) * (1/2))) = 1\<close>, the pair \<open>(a, c)\<close>, which never occurs, has PMI 0.
\<close>

theorem pmi_entry_witness:
  "loc (calculate_pmi example_cooc) ''a'' ''b'' = Num 1 \<and>
   loc (calculate_pmi example_cooc) ''a'' ''c'' = Num 0 \<and>
   spec_marginal example_cooc ''a'' = 1 / 2"
proof -
  have a: "''a'' \<in> set (labels example_cooc)" and b: "''b'' \<in> set (labels example_cooc)"
    and c: "''c'' \<in> set (labels example_cooc)"
    by (simp_all add: example_cooc_labels)
  have ab: "''a'' \<noteq> ''b''" and ac: "''a'' \<noteq> ''c''" by simp_all
  have pos: "0 < sum_sum example_cooc" by (simp add: example_cooc_sum_sum)
  have cab: "loc example_cooc ''a'' ''b'' = 1" and cac: "loc example_cooc ''a'' ''c'' = 0"
    and caa: "loc example_cooc ''a'' ''a'' = 0"
    by (simp_all add: example_cooc_cell)
  note t1 = pmi_entry [OF a b ab pos example_cooc_symmetric refl refl refl refl]
  note t2 = pmi_entry [OF a c ac pos example_cooc_symmetric refl refl refl refl]
  have "loc (calculate_pmi example_cooc) ''a'' ''b'' = Num 1"
    using t1 by (simp add: example_cooc_sum_sum example_cooc_sums cab)
  moreover have "loc (calculate_pmi example_cooc) ''a'' ''c'' = Num 0"
    using t2 by (simp add: example_cooc_sum_sum example_cooc_sums cac)
  moreover have "real (col_sum example_cooc ''a'') / (real (sum_sum example_cooc) / 2) =
      spec_marginal example_cooc ''a''"
    using t1 caa by blast
  then have "spec_marginal example_cooc ''a'' = 1 / 2"
    by (simp add: example_cooc_sum_sum example_cooc_sums)
  ultimately show ?thesis by simp
qed

text \<open>
  The claim as stated takes the marginal of the specification, the sum over the other
  tags. For the tag list \<open>[a, a, b]\<close> the cell \<open>(a, a)\<close> is 2 and the column of \<open>a\<close> sums
  to 4: the script divides the joint probability 2/3 by \<open>(4/3) * (2/3)\<close> and writes
  \<open>log 2 (3/4)\<close>, a negative score, where the marginals of the specification, both 2/3,
  give \<open>log 2 (3/2)\<close>, a positive one.
\<close>

theorem pmi_entry_duplicate_tag:
  "loc (calculate_pmi duplicate_cooc) ''a'' ''b'' = Num (log 2 (3 / 4)) \<and>
   real (loc duplicate_cooc ''a'' ''b'') / (real (sum_sum duplicate_cooc) / 2) = 2 / 3 \<and>
   spec_marginal duplicate_cooc ''a'' = 2 / 3 \<and> spec_marginal duplicate_cooc ''b'' = 2 / 3 \<and>
   loc (calculate_pmi duplicate_cooc) ''a'' ''b'' \<noteq>
     Num (log 2 (real (loc duplicate_cooc ''a'' ''b'') / (real (sum_sum duplicate_cooc) / 2) /
            (spec_marginal duplicate_cooc ''a'' * spec_marginal duplicate_cooc ''b'')))"
proof -
  have a: "''a'' \<in> set (labels duplicate_cooc)" and b: "''b'' \<in> set (labels duplicate_cooc)"
    by (simp_all add: duplicate_cooc_labels)
  have ab: "''a'' \<noteq> ''b''" by simp
  have pos: "0 < sum_sum duplicate_cooc" by (simp add: duplicate_cooc_sum_sum)
  have cab: "loc duplicate_cooc ''a'' ''b'' = 2"
    by (simp add: duplicate_cooc_cell)
  note t = pmi_cell_value [OF a b ab pos duplicate_cooc_symmetric refl refl refl refl]
  have v: "loc (calculate_pmi duplicate_cooc) ''a'' ''b'' = Num (log 2 (3 / 4))"
    using t by (simp add: duplicate_cooc_sum_sum duplicate_cooc_sums cab)
  have j: "real (loc duplicate_cooc ''a'' ''b'') / (real (sum_sum duplicate_cooc) / 2) = 2 / 3"
    by (simp add: duplicate_cooc_sum_sum cab)
  have "log 2 (3 / 4) < 0" and "0 < log 2 (3 / 2)" by simp_all
  then have ne: "log 2 (3 / 4) \<noteq> log 2 (3 / 2)" by linarith
  have q: "(2 / 3) / ((2 / 3) * (2 / 3)) = (3 / 2 :: real)" by simp
  have "loc (calculate_pmi duplicate_cooc) ''a'' ''b'' \<noteq>
     Num (log 2 (real (loc duplicate_cooc ''a'' ''b'') / (real (sum_sum duplicate_cooc) / 2) /
            (spec_marginal duplicate_cooc ''a'' * spec_marginal duplicate_cooc ''b'')))"
    unfolding v j duplicate_cooc_spec_marginals q using ne by simp
  then show ?thesis using v j duplicate_cooc_spec_marginals by blast
qed

subsection \<open>C9: the ranking\<close>

text \<open>
  Claim C9, as amended. For every PMI matrix and every \<open>n\<close> that is not negative, the
  ranking has at most \<open>n\<close> rows, all of them rows of the upper triangle, in descending
  order of the score (rows without a score last); when the upper triangle has at most
  \<open>n\<close> rows the ranking holds all of them; and the default \<open>n\<close> is 10.
\<close>

theorem ranking:
  assumes "sort_values_ok sort_values" and "0 \<le> n"
  shows "int (length (get_top_collocations sort_values pm n)) \<le> n \<and>
         sorted_wrt (\<lambda>r s. np_ge (pmi_of r) (pmi_of s))
           (get_top_collocations sort_values pm n) \<and>
         set (get_top_collocations sort_values pm n) \<subseteq> set (pmi_values pm) \<and>
         (int (length (pmi_values pm)) \<le> n \<longrightarrow>
            mset (get_top_collocations sort_values pm n) = mset (pmi_values pm)) \<and>
         get_top_collocations_default sort_values pm =
           get_top_collocations sort_values pm 10"
proof (intro conjI impI)
  let ?rows = "pmi_values pm"
  have m: "mset (sort_values ?rows) = mset ?rows"
    and s: "sorted_wrt (\<lambda>r s. np_ge (pmi_of r) (pmi_of s)) (sort_values ?rows)"
    using assms(1) by (simp_all add: sort_values_ok_def)
  show "int (length (get_top_collocations sort_values pm n)) \<le> n"
    unfolding get_top_collocations_def by (rule length_df_head [OF assms(2)])
  show "sorted_wrt (\<lambda>r s. np_ge (pmi_of r) (pmi_of s))
           (get_top_collocations sort_values pm n)"
    unfolding get_top_collocations_def by (rule sorted_df_head [OF s])
  have "set (df_head n (sort_values ?rows)) \<subseteq> set (sort_values ?rows)"
    by (simp add: df_head_def set_take_subset)
  moreover have "set (sort_values ?rows) = set ?rows"
    using m by (rule mset_eq_setD)
  ultimately show "set (get_top_collocations sort_values pm n) \<subseteq> set ?rows"
    by (simp add: get_top_collocations_def)
  show "get_top_collocations_default sort_values pm =
           get_top_collocations sort_values pm 10"
    by (rule get_top_collocations_default_def)
  assume "int (length ?rows) \<le> n"
  then have "int (length (sort_values ?rows)) \<le> n"
    by (simp add: sort_values_length [OF assms(1)])
  then have "df_head n (sort_values ?rows) = sort_values ?rows"
    by (rule df_head_all)
  then show "mset (get_top_collocations sort_values pm n) = mset ?rows"
    by (simp add: get_top_collocations_def m)
qed

text \<open>The theorem at the example matrix, for \<open>n = 2\<close> and for \<open>n = 3\<close>.\<close>

theorem ranking_witness:
  "get_top_collocations sort_values_stable example_pmi 2 =
     [(''a'', ''c'', Num 1), (''a'', ''b'', Num 0)] \<and>
   int (length (get_top_collocations sort_values_stable example_pmi 2)) \<le> 2 \<and>
   sorted_wrt (\<lambda>r s. np_ge (pmi_of r) (pmi_of s))
     (get_top_collocations sort_values_stable example_pmi 2) \<and>
   mset (get_top_collocations sort_values_stable example_pmi 3) = mset (pmi_values example_pmi)"
proof -
  have two: "(0::int) \<le> 2" and three: "(0::int) \<le> 3" by simp_all
  note t2 = ranking [OF sort_values_ok_stable two, of example_pmi]
  note t3 = ranking [OF sort_values_ok_stable three, of example_pmi]
  have "int (length (pmi_values example_pmi)) \<le> 3"
    by (simp add: example_pmi_values)
  then show ?thesis using t2 t3 example_pmi_top2 by blast
qed

text \<open>
  The claim as stated covers every \<open>n\<close>. \<^verbatim>\<open>head(-1)\<close> returns all rows but the last:
  of three pairs it keeps two, which is more than \<open>-1\<close>.
\<close>

theorem ranking_negative_n:
  "\<not> int (length (get_top_collocations sort_values_stable zero_pmi (- 1))) \<le> - 1"
  by (simp add: get_top_collocations_def zero_pmi_values sort_values_stable_def df_head_def
      pmi_of_def)

subsection \<open>C10: determinism\<close>

text \<open>
  Claim C10. A run of the pipeline is a function of the posts and of the one thing that
  changes between two runs of the interpreter on the same posts, the order in which the
  set of the tags is iterated. The result does not depend on that order: two runs return
  the same co-occurrence matrix, the same PMI matrix and the same list of collocations.
\<close>

theorem deterministic:
  assumes "set_iter_ok set_iter1" and "set_iter_ok set_iter2"
  shows "analyze_hashtag_collocations lower set_iter1 sort_values data =
         analyze_hashtag_collocations lower set_iter2 sort_values data"
proof -
  have "calculate_cooccurrence_matrix set_iter1 (load_and_extract_hashtags lower data) =
        calculate_cooccurrence_matrix set_iter2 (load_and_extract_hashtags lower data)"
    by (rule calculate_cooccurrence_matrix_set_iter [OF assms])
  then show ?thesis
    by (simp only: analyze_hashtag_collocations_def Let_def)
qed

text \<open>
  The theorem at two iteration orders that differ, one the reverse of the other, on the
  four example posts.
\<close>

theorem deterministic_witness:
  "remdups [''b'', ''a''] \<noteq> rev (remdups [''b'', ''a'']) \<and>
   analyze_hashtag_collocations ascii_lower remdups sort_values_stable example_posts =
   analyze_hashtag_collocations ascii_lower (\<lambda>xs. rev (remdups xs)) sort_values_stable example_posts"
proof -
  have "remdups [''b'', ''a''] \<noteq> rev (remdups [''b'', ''a''])" by simp
  then show ?thesis
    using deterministic [OF set_iter_ok_remdups set_iter_ok_rev_remdups,
        of ascii_lower sort_values_stable example_posts]
    by blast
qed

end
